theory Spec2Isabelle
  imports Complex_Main
begin

section \<open>BracketMot: sizing of an L-shaped motor bracket\<close>

text \<open>
  A shallow embedding of \<^verbatim>\<open>BracketMot.py\<close>. Every length is a Python \<^verbatim>\<open>float\<close> in
  millimetres. The first model below takes each one as an exact \<^typ>\<open>real\<close> and
  leaves the rounding of IEEE double arithmetic out; the lines that place the base holes
  are modelled a second time with that rounding, for the property that depends on it.
  The calls into the CAD kernel (\<^verbatim>\<open>cadquery\<close>) are kept as a term that records
  which call was made with which arguments; what the kernel computes from them is
  outside the program.
\<close>

subsection \<open>The two parameter records\<close>

record MotorFixedSpec =
  flange_size :: real
  body_diameter :: real
  mount_hole_pitch :: real
  mount_hole_diameter :: real
  mount_hole_clearance :: real
  pilot_diameter :: real
  pilot_clearance :: real

record BracketParams =
  thickness :: real
  hole_edge_margin :: real
  body_clearance :: real
  top_margin :: real
  base_length_extra :: real
  base_hole_diameter :: real
  base_hole_edge_offset :: real

text \<open>\<^verbatim>\<open>MotorFixedSpec()\<close>: the dataclass with every field at its default.\<close>

definition MotorFixedSpec_default :: MotorFixedSpec where
  "MotorFixedSpec_default =
     \<lparr>flange_size = 60.0, body_diameter = 60.0, mount_hole_pitch = 49.5,
      mount_hole_diameter = 4.5, mount_hole_clearance = 0.5,
      pilot_diameter = 54.0, pilot_clearance = 2.0\<rparr>"

text \<open>\<^verbatim>\<open>BracketParams()\<close>: the dataclass with every field at its default.\<close>

definition BracketParams_default :: BracketParams where
  "BracketParams_default =
     \<lparr>thickness = 5.0, hole_edge_margin = 12.0, body_clearance = 8.0,
      top_margin = 10.0, base_length_extra = 20.0, base_hole_diameter = 6.6,
      base_hole_edge_offset = 18.0\<rparr>"

text \<open>
  \<^verbatim>\<open>BracketParams(thickness=t)\<close>: the keyword argument sets one field, the dataclass
  fills in the six others.
\<close>

definition BracketParams_init :: "real \<Rightarrow> BracketParams" where
  "BracketParams_init t =
     \<lparr>thickness = t, hole_edge_margin = 12.0, body_clearance = 8.0,
      top_margin = 10.0, base_length_extra = 20.0, base_hole_diameter = 6.6,
      base_hole_edge_offset = 18.0\<rparr>"

subsection \<open>The kernel calls, as data\<close>

type_synonym vec3 = "real \<times> real \<times> real"
type_synonym point2 = "real \<times> real"

text \<open>\<^verbatim>\<open>cq.Plane(origin=..., xDir=..., normal=...)\<close>\<close>

record plane =
  origin :: vec3
  xDir :: vec3
  normal :: vec3

text \<open>
  \<^verbatim>\<open>cq.Workplane(pl).pushPoints(pts).circle(r).extrude(d, both=b)\<close>. A cutter built
  without \<^verbatim>\<open>pushPoints\<close> has the empty list of pushed points.
\<close>

record cutter =
  cutter_plane :: plane
  pushed :: "point2 list"
  radius :: real
  distance :: real
  both :: bool

text \<open>
  The centres at which the kernel draws the circles of a cutter, in the local frame of
  its plane: the pushed points, and the origin of the plane when none was pushed. This
  is the rule of \<^verbatim>\<open>cadquery\<close> for a workplane with an empty stack; the program relies
  on it for the shaft cutter and does not state it.
\<close>

definition centers :: "cutter \<Rightarrow> point2 list" where
  "centers c = (if pushed c = [] then [(0, 0)] else pushed c)"

text \<open>
  The solids the program asks for:
  \<^item> \<open>Box l w h c\<close> is \<^verbatim>\<open>cq.Workplane("XY").box(l, w, h, centered=c)\<close>;
  \<^item> \<open>Cut s c\<close> is \<^verbatim>\<open>s.cut(c)\<close>;
  \<^item> \<open>TopHoles s pts d\<close> is
    \<^verbatim>\<open>s.faces(">Z").workplane(centerOption="CenterOfBoundBox").pushPoints(pts).hole(d)\<close>;
  \<^item> \<open>Union a b\<close> is \<^verbatim>\<open>a.union(b)\<close>.
\<close>

datatype solid =
    Box real real real "bool \<times> bool \<times> bool"
  | Cut solid cutter
  | TopHoles solid "point2 list" real
  | Union solid solid

subsection \<open>The derived dimensions of \<^verbatim>\<open>build_l_bracket\<close>\<close>

text \<open>
  Each local variable of \<^verbatim>\<open>build_l_bracket\<close> is a function of the two records, under
  the name it has in the source.
\<close>

definition pitch_w :: "MotorFixedSpec \<Rightarrow> real" where
  "pitch_w motor = mount_hole_pitch motor"

definition pitch_h :: "MotorFixedSpec \<Rightarrow> real" where
  "pitch_h motor = mount_hole_pitch motor"

definition mount_center_z :: "MotorFixedSpec \<Rightarrow> BracketParams \<Rightarrow> real" where
  "mount_center_z motor params =
     thickness params + body_diameter motor / 2.0 + body_clearance params"

definition wall_height :: "MotorFixedSpec \<Rightarrow> BracketParams \<Rightarrow> real" where
  "wall_height motor params =
     mount_center_z motor params
       + max (flange_size motor / 2.0 + top_margin params)
             (pitch_h motor / 2.0 + hole_edge_margin params)"

definition wall_width :: "MotorFixedSpec \<Rightarrow> BracketParams \<Rightarrow> real" where
  "wall_width motor params =
     max (flange_size motor + 2.0 * body_clearance params)
         (pitch_w motor + 2.0 * hole_edge_margin params)"

text \<open>
  The expression of \<^verbatim>\<open>base_length\<close>, with the wall width it reads as an argument of
  its own.
\<close>

definition base_length_of :: "real \<Rightarrow> real \<Rightarrow> real \<Rightarrow> real" where
  "base_length_of ww extra edge_offset = max (ww + extra) (2.0 * edge_offset + 24.0)"

definition base_length :: "MotorFixedSpec \<Rightarrow> BracketParams \<Rightarrow> real" where
  "base_length motor params =
     base_length_of (wall_width motor params) (base_length_extra params)
       (base_hole_edge_offset params)"

definition mount_plane :: "MotorFixedSpec \<Rightarrow> BracketParams \<Rightarrow> plane" where
  "mount_plane motor params =
     \<lparr>origin = (thickness params, 0.0, mount_center_z motor params),
      xDir = (0, 1, 0), normal = (1, 0, 0)\<rparr>"

definition mount_hole_d :: "MotorFixedSpec \<Rightarrow> real" where
  "mount_hole_d motor = mount_hole_diameter motor + mount_hole_clearance motor"

definition center_hole_d :: "MotorFixedSpec \<Rightarrow> real" where
  "center_hole_d motor = pilot_diameter motor + pilot_clearance motor"

definition half_pitch :: "MotorFixedSpec \<Rightarrow> real" where
  "half_pitch motor = mount_hole_pitch motor / 2.0"

definition hole_points :: "MotorFixedSpec \<Rightarrow> point2 list" where
  "hole_points motor =
     [(- half_pitch motor, - half_pitch motor),
      (- half_pitch motor, half_pitch motor),
      (half_pitch motor, - half_pitch motor),
      (half_pitch motor, half_pitch motor)]"

definition hole_cutter :: "MotorFixedSpec \<Rightarrow> BracketParams \<Rightarrow> cutter" where
  "hole_cutter motor params =
     \<lparr>cutter_plane = mount_plane motor params, pushed = hole_points motor,
      radius = mount_hole_d motor / 2.0, distance = thickness params + 2.0,
      both = True\<rparr>"

definition shaft_cutter :: "MotorFixedSpec \<Rightarrow> BracketParams \<Rightarrow> cutter" where
  "shaft_cutter motor params =
     \<lparr>cutter_plane = mount_plane motor params, pushed = [],
      radius = center_hole_d motor / 2.0, distance = thickness params + 2.0,
      both = True\<rparr>"

text \<open>
  \<open>x2\<close> is the exact difference. The program rounds this subtraction to a double;
  \<open>x2_double\<close> further down does the same, and the distance between the two
  x-positions is stated for \<open>x2_double\<close> only.
\<close>

definition x1 :: "BracketParams \<Rightarrow> real" where
  "x1 params = base_hole_edge_offset params"

definition x2 :: "MotorFixedSpec \<Rightarrow> BracketParams \<Rightarrow> real" where
  "x2 motor params = base_length motor params - base_hole_edge_offset params"

text \<open>\<^verbatim>\<open>y_off\<close> is assigned twice; \<open>y_off0\<close> is its first value, \<open>y_off\<close> its last.\<close>

definition y_off0 :: "MotorFixedSpec \<Rightarrow> BracketParams \<Rightarrow> real" where
  "y_off0 motor params =
     max (wall_width motor params * 0.28) (base_hole_diameter params + 4.0)"

definition y_off :: "MotorFixedSpec \<Rightarrow> BracketParams \<Rightarrow> real" where
  "y_off motor params =
     min (y_off0 motor params)
         (wall_width motor params / 2.0 - hole_edge_margin params + 2.0)"

definition base_hole_points :: "MotorFixedSpec \<Rightarrow> BracketParams \<Rightarrow> point2 list" where
  "base_hole_points motor params =
     [(x1 params - base_length motor params / 2.0, - y_off motor params),
      (x1 params - base_length motor params / 2.0, y_off motor params),
      (x2 motor params - base_length motor params / 2.0, - y_off motor params),
      (x2 motor params - base_length motor params / 2.0, y_off motor params)]"

subsection \<open>\<^verbatim>\<open>build_l_bracket\<close>\<close>

definition build_l_bracket :: "MotorFixedSpec \<Rightarrow> BracketParams \<Rightarrow> solid" where
  "build_l_bracket motor params =
     (let t = thickness params;
          base = Box (base_length motor params) (wall_width motor params) t
                   (False, True, False);
          wall = Box t (wall_width motor params) (wall_height motor params)
                   (False, True, False);
          wall = Cut (Cut wall (hole_cutter motor params)) (shaft_cutter motor params);
          base = TopHoles base (base_hole_points motor params) (base_hole_diameter params)
      in Union base wall)"

subsection \<open>\<^verbatim>\<open>main\<close>: from the command line to the two records\<close>

text \<open>
  \<^verbatim>\<open>--thickness\<close> is declared with \<^verbatim>\<open>type=float, default=5.0\<close>: the parsed value is
  the converted argument when the flag is given and the default when it is not. The
  argument of \<open>args_thickness\<close> is the flag's value after conversion, \<open>None\<close> when the
  flag is absent.
\<close>

definition args_thickness :: "real option \<Rightarrow> real" where
  "args_thickness flag = (case flag of None \<Rightarrow> 5.0 | Some v \<Rightarrow> v)"

definition main_motor_spec :: MotorFixedSpec where
  "main_motor_spec = MotorFixedSpec_default"

definition main_params :: "real option \<Rightarrow> BracketParams" where
  "main_params flag = BracketParams_init (args_thickness flag)"

definition main_bracket :: "real option \<Rightarrow> solid" where
  "main_bracket flag = build_l_bracket main_motor_spec (main_params flag)"

text \<open>
  The two effective diameters that \<^verbatim>\<open>main\<close> prints after the export; it computes them
  again from the motor record.
\<close>

definition reported_mount_hole_dia :: "MotorFixedSpec \<Rightarrow> real" where
  "reported_mount_hole_dia motor_spec =
     mount_hole_diameter motor_spec + mount_hole_clearance motor_spec"

definition reported_center_clearance_dia :: "MotorFixedSpec \<Rightarrow> real" where
  "reported_center_clearance_dia motor_spec =
     pilot_diameter motor_spec + pilot_clearance motor_spec"

subsection \<open>Input domain and the specification's clamp\<close>





subsection \<open>Double precision\<close>











subsection \<open>The base holes of \<^verbatim>\<open>build_l_bracket\<close> in double precision\<close>









section \<open>Properties\<close>

lemmas dimension_defs =
  mount_center_z_def wall_height_def wall_width_def base_length_def base_length_of_def
  pitch_w_def pitch_h_def

text \<open>
  C1. With the default motor record and the default bracket parameters (thickness 5.0) the
  resolved wall height is 83.0 mm and the wall width 76.0 mm; the effective mount hole
  diameter is 5.0 mm and the effective pilot diameter 56.0 mm, both as the cutters use
  them and as the summary prints them.
\<close>

theorem default_dimensions:
  "thickness BracketParams_default = 5.0
   \<and> wall_height MotorFixedSpec_default BracketParams_default = 83.0
   \<and> wall_width MotorFixedSpec_default BracketParams_default = 76.0
   \<and> mount_hole_d MotorFixedSpec_default = 5.0
   \<and> center_hole_d MotorFixedSpec_default = 56.0
   \<and> reported_mount_hole_dia MotorFixedSpec_default = 5.0
   \<and> reported_center_clearance_dia MotorFixedSpec_default = 56.0"
  by (simp add: dimension_defs mount_hole_d_def center_hole_d_def
      reported_mount_hole_dia_def reported_center_clearance_dia_def
      MotorFixedSpec_default_def BracketParams_default_def)

subsection \<open>The derived dimensions are what the returned solid is built from\<close>

lemma BracketParams_init_default:
  "BracketParams_init t = BracketParams_default\<lparr>thickness := t\<rparr>"
  by (simp add: BracketParams_init_def BracketParams_default_def)

lemma build_l_bracket_calls:
  "build_l_bracket motor params =
     Union
       (TopHoles
          (Box (base_length motor params) (wall_width motor params) (thickness params)
             (False, True, False))
          (base_hole_points motor params) (base_hole_diameter params))
       (Cut
          (Cut
             (Box (thickness params) (wall_width motor params) (wall_height motor params)
                (False, True, False))
             (hole_cutter motor params))
          (shaft_cutter motor params))"
  by (simp add: build_l_bracket_def Let_def)

lemma wall_width_lower_bounds:
  "mount_hole_pitch motor + 2 * hole_edge_margin params \<le> wall_width motor params"
  "flange_size motor + 2 * body_clearance params \<le> wall_width motor params"
  by (simp_all add: wall_width_def pitch_w_def)

lemma base_length_lower_bounds:
  "wall_width motor params + base_length_extra params \<le> base_length motor params"
  "2 * base_hole_edge_offset params + 24 \<le> base_length motor params"
  by (simp_all add: base_length_def base_length_of_def)

subsection \<open>The wall\<close>

text \<open>
  C2. For every strictly positive thickness, with the default motor record and the other
  bracket parameters at their defaults, \<open>mount_center_z\<close> is
  thickness + body_diameter/2 + body_clearance, the wall height is at least
  \<open>mount_center_z\<close>, and the wall width is at least
  mount_hole_pitch + 2 * hole_edge_margin.
\<close>

theorem wall_bounds_default_motor:
  assumes "0 < t"
  shows "mount_center_z MotorFixedSpec_default (BracketParams_init t)
           = t + body_diameter MotorFixedSpec_default / 2
               + body_clearance (BracketParams_init t)
         \<and> mount_center_z MotorFixedSpec_default (BracketParams_init t)
             \<le> wall_height MotorFixedSpec_default (BracketParams_init t)
         \<and> mount_hole_pitch MotorFixedSpec_default
               + 2 * hole_edge_margin (BracketParams_init t)
             \<le> wall_width MotorFixedSpec_default (BracketParams_init t)"
  by (simp add: dimension_defs MotorFixedSpec_default_def BracketParams_init_def)

theorem wall_bounds_default_motor_witness:
  "(0::real) < 3
   \<and> mount_center_z MotorFixedSpec_default (BracketParams_init 3) = 41
   \<and> wall_height MotorFixedSpec_default (BracketParams_init 3) = 81
   \<and> (41::real) \<le> 81
   \<and> wall_width MotorFixedSpec_default (BracketParams_init 3) = 76
   \<and> mount_hole_pitch MotorFixedSpec_default + 2 * hole_edge_margin (BracketParams_init 3)
        \<le> wall_width MotorFixedSpec_default (BracketParams_init 3)"
  using wall_bounds_default_motor [of 3]
  by (simp add: dimension_defs MotorFixedSpec_default_def BracketParams_init_def)

subsection \<open>The mount holes and the pilot hole\<close>

text \<open>
  C3. For every motor record and every bracket parameters, the mount-hole points are the
  four points (+-pitch/2, +-pitch/2) in the local frame of the mount plane: the list that
  is pushed has exactly four entries, pairwise distinct exactly when the pitch is not
  zero, and negating either coordinate of an entry gives an entry again. The pilot
  cutter lies on the same plane, nothing is pushed for it, and its one circle is centred
  at the origin of that plane.
\<close>

theorem mount_holes_symmetric:
  "hole_points motor =
     [(- (mount_hole_pitch motor / 2), - (mount_hole_pitch motor / 2)),
      (- (mount_hole_pitch motor / 2), mount_hole_pitch motor / 2),
      (mount_hole_pitch motor / 2, - (mount_hole_pitch motor / 2)),
      (mount_hole_pitch motor / 2, mount_hole_pitch motor / 2)]
   \<and> length (hole_points motor) = 4
   \<and> (distinct (hole_points motor) \<longleftrightarrow> mount_hole_pitch motor \<noteq> 0)
   \<and> (\<forall>(u, v) \<in> set (hole_points motor).
         (- u, v) \<in> set (hole_points motor) \<and> (u, - v) \<in> set (hole_points motor))
   \<and> centers (hole_cutter motor params) = hole_points motor
   \<and> centers (shaft_cutter motor params) = [(0, 0)]
   \<and> cutter_plane (shaft_cutter motor params) = cutter_plane (hole_cutter motor params)
   \<and> cutter_plane (hole_cutter motor params) = mount_plane motor params"
  by (simp add: hole_points_def half_pitch_def centers_def hole_cutter_def shaft_cutter_def)

theorem mount_holes_symmetric_witness:
  "mount_hole_pitch MotorFixedSpec_default \<noteq> 0
   \<and> distinct (hole_points MotorFixedSpec_default)
   \<and> (24.75, 24.75) \<in> set (hole_points MotorFixedSpec_default)
   \<and> (- 24.75, 24.75) \<in> set (hole_points MotorFixedSpec_default)
   \<and> (24.75, - 24.75) \<in> set (hole_points MotorFixedSpec_default)"
  using mount_holes_symmetric [of MotorFixedSpec_default BracketParams_default]
  by (simp add: MotorFixedSpec_default_def)

subsection \<open>The base holes\<close>























text \<open>
  C5. The base length max(wall_width + base_length_extra, 2 * base_hole_edge_offset + 24)
  never decreases when the wall width grows with the other arguments fixed, and never
  decreases when the edge offset grows with the other arguments fixed; the latter also
  for the edge offset as a field of the bracket parameters.
\<close>

theorem base_length_monotone:
  "(ww \<le> ww' \<longrightarrow> base_length_of ww extra off \<le> base_length_of ww' extra off)
   \<and> (off \<le> off' \<longrightarrow> base_length_of ww extra off \<le> base_length_of ww extra off')
   \<and> (off \<le> off' \<longrightarrow>
         base_length motor (params\<lparr>base_hole_edge_offset := off\<rparr>)
           \<le> base_length motor (params\<lparr>base_hole_edge_offset := off'\<rparr>))"
  by (auto simp add: base_length_def base_length_of_def wall_width_def)

theorem base_length_monotone_witness:
  "(76::real) \<le> 100 \<and> base_length_of 76 20 18 = 96 \<and> base_length_of 100 20 18 = 120
   \<and> (18::real) \<le> 40 \<and> base_length_of 76 20 40 = 104
   \<and> base_length MotorFixedSpec_default
        (BracketParams_default\<lparr>base_hole_edge_offset := 18\<rparr>) = 96
   \<and> base_length MotorFixedSpec_default
        (BracketParams_default\<lparr>base_hole_edge_offset := 40\<rparr>) = 104"
  using base_length_monotone [of 76 100 20 18 40 MotorFixedSpec_default BracketParams_default]
  by (simp add: dimension_defs MotorFixedSpec_default_def BracketParams_default_def)






subsection \<open>What the thickness does not reach\<close>

text \<open>
  C8. With thickness 3.0 and everything else at its default, \<open>mount_center_z\<close> is 41. For
  any motor record and any two bracket parameters that differ in the thickness only, the
  base length, the base-hole x-positions \<open>x1\<close> and \<open>x2\<close> (each base_hole_edge_offset away
  from its end of the base), the y-offset and with them the four base-hole points are the
  same. This holds for every thickness, positive or not.
\<close>

theorem thickness_independence:
  "mount_center_z MotorFixedSpec_default (BracketParams_init 3.0) = 41
   \<and> base_length motor (params\<lparr>thickness := t\<rparr>)
       = base_length motor (params\<lparr>thickness := t'\<rparr>)
   \<and> x1 (params\<lparr>thickness := t\<rparr>) = x1 (params\<lparr>thickness := t'\<rparr>)
   \<and> x2 motor (params\<lparr>thickness := t\<rparr>) = x2 motor (params\<lparr>thickness := t'\<rparr>)
   \<and> x1 (params\<lparr>thickness := t\<rparr>) = base_hole_edge_offset params
   \<and> base_length motor (params\<lparr>thickness := t\<rparr>) - x2 motor (params\<lparr>thickness := t\<rparr>)
       = base_hole_edge_offset params
   \<and> y_off motor (params\<lparr>thickness := t\<rparr>) = y_off motor (params\<lparr>thickness := t'\<rparr>)
   \<and> base_hole_points motor (params\<lparr>thickness := t\<rparr>)
       = base_hole_points motor (params\<lparr>thickness := t'\<rparr>)"
  by (simp add: dimension_defs x1_def x2_def y_off_def y_off0_def base_hole_points_def
      MotorFixedSpec_default_def BracketParams_init_def)

subsection \<open>The command-line default\<close>

text \<open>
  C10. The default of \<^verbatim>\<open>--thickness\<close> is the default thickness of the bracket
  parameters: a run without the flag builds its parameters equal to
  \<^verbatim>\<open>BracketParams()\<close>, and so asks the kernel for the same solid.
\<close>

theorem cli_default_thickness:
  "args_thickness None = thickness BracketParams_default
   \<and> main_params None = BracketParams_default
   \<and> main_bracket None = build_l_bracket MotorFixedSpec_default BracketParams_default"
  by (simp add: args_thickness_def main_params_def main_bracket_def main_motor_spec_def
      BracketParams_init_def BracketParams_default_def)

end
